theory Spec2Isabelle
  imports Complex_Main
begin

section \<open>element2image: a shallow embedding of \<^verbatim>\<open>src/utils/element2image.ts\<close>\<close>

text \<open>
  The module exports three asynchronous functions, \<^verbatim>\<open>copyImage\<close>, \<^verbatim>\<open>downloadImage\<close> and
  \<^verbatim>\<open>downloadPdf\<close>. Each one awaits the rasterizer and then calls platform primitives in a
  fixed order. The embedding makes the platform explicit:
  \<^item> what the browser and the two libraries compute (rasterizer, encoders, image
    properties, feature support, clipboard permission, page format) is a record of
    functions, \<open>platform\<close>, that every operation takes as its first argument;
  \<^item> what the operations change (document body, downloads, opened windows, clipboard,
    queued callbacks, unhandled rejections) is a record, \<open>state\<close>, passed in and
    returned;
  \<^item> a rejected promise is the left injection of a sum, \<open>failure + unit\<close>.
  One call is modelled as running alone: nothing else touches the state between its
  steps.
\<close>

subsection \<open>Values\<close>

type_synonym node = nat

text \<open>
  The argument \<^verbatim>\<open>element: HTMLElement\<close> at run time. The type annotation is erased, and the
  documented caller passes \<^verbatim>\<open>printRef.current!\<close>, which is \<^verbatim>\<open>null\<close> until the component is
  mounted.
\<close>

datatype element = Null | Undefined | Element node

text \<open>The union type \<^verbatim>\<open>'png' | 'jpg'\<close> and the string each member is.\<close>

datatype file_extension = Png | Jpg

fun extension_string :: "file_extension \<Rightarrow> string" where
  "extension_string Png = ''png''"
| "extension_string Jpg = ''jpg''"

datatype failure =
    InvalidElement | UnknownImageType | NotFoundError | NotAllowedError | TypeError

record canvas =
  canvasWidth :: nat
  canvasHeight :: nat
  pixels :: nat

record blob =
  blobType :: string
  blobBytes :: string

text \<open>
  A \<^verbatim>\<open>data:\<close> URL: \<open>EmptyDataURL\<close> is the string \<^verbatim>\<open>data:,\<close>; \<open>DataURL t b\<close> is
  \<^verbatim>\<open>data:t;base64,b\<close>, whose media type \<open>t\<close> is the format tag of the encoded image.
\<close>

datatype data_url = EmptyDataURL | DataURL string string

fun mediaType :: "data_url \<Rightarrow> string option" where
  "mediaType EmptyDataURL = None"
| "mediaType (DataURL t b) = Some t"

text \<open>
  A clipboard item: its representations, each a MIME type with its data (\<open>None\<close> is
  \<^verbatim>\<open>null\<close>). As in the Clipboard API, the constructor takes any value as the data of a
  representation; what it is worth is decided when the item is written.
\<close>

datatype clipboard_item = ClipboardItem "(string \<times> blob option) list"

fun representations :: "clipboard_item \<Rightarrow> (string \<times> blob option) list" where
  "representations (ClipboardItem rs) = rs"

text \<open>
  JavaScript numbers are read as exact reals; rounding of IEEE doubles is not modelled.
  Division is the one operation of the source that leaves the finite numbers, so its
  result has the non-finite values.
\<close>

datatype js_number = Num real | PosInfinity | NegInfinity | NaN

definition js_div :: "real \<Rightarrow> real \<Rightarrow> js_number" where
  "js_div a b =
     (if b \<noteq> 0 then Num (a / b)
      else if 0 < a then PosInfinity
      else if a < 0 then NegInfinity
      else NaN)"

record image_properties =
  width :: real
  height :: real

record placed_image =
  imageData :: data_url
  imageFormat :: string
  imageX :: js_number
  imageY :: js_number
  imageW :: js_number
  imageH :: js_number

text \<open>A jsPDF document: its page size and, for each page, the images placed on it.\<close>

record pdf =
  pageWidth :: real
  pageHeight :: real
  pages :: "placed_image list list"

datatype file_content = ImageData data_url | Document pdf

datatype dom_mutation = ChildAppended node | ChildRemoved node

text \<open>The anchor element \<^verbatim>\<open>link\<close>; \<open>download = None\<close> is a property that is \<^verbatim>\<open>undefined\<close>.\<close>

record anchor =
  anchorNode :: node
  href :: "data_url option"
  download :: "string option"

text \<open>A queued task: the callback given to \<^verbatim>\<open>toBlob\<close>, with the blob it will receive.\<close>

datatype task = BlobCallback "blob option"

subsection \<open>Platform and state\<close>

record platform =
  html2canvas :: "element \<Rightarrow> failure + canvas"
  toBlob_encoder :: "canvas \<Rightarrow> blob option"
  toDataURL :: "canvas \<Rightarrow> string \<Rightarrow> data_url"
  supportsDownload :: bool
  clipboardRefusal :: "clipboard_item list \<Rightarrow> failure option"
  getImageProperties :: "data_url \<Rightarrow> failure + image_properties"
  defaultPageWidth :: real
  defaultPageHeight :: real

record state =
  nextNode :: node
  body :: "node list"
  mutations :: "dom_mutation list"
  downloads :: "(string \<times> file_content) list"
  windows :: "data_url list"
  clipboardWrites :: "clipboard_item list list"
  clipboard :: "clipboard_item list option"
  unhandled :: "failure list"
  tasks :: "task list"

text \<open>Nodes are numbered as they are created; a well-formed state holds only created nodes.\<close>

definition wf_state :: "state \<Rightarrow> bool" where
  "wf_state s = (\<forall>n \<in> set (body s). n < nextNode s)"

subsection \<open>Platform primitives\<close>

text \<open>
  \<^verbatim>\<open>document.createElement('a')\<close>: a new, detached anchor. Where the platform implements
  the \<^verbatim>\<open>download\<close> attribute the property is the empty string, elsewhere it is undefined.
\<close>

definition createElement_a :: "platform \<Rightarrow> state \<Rightarrow> anchor \<times> state" where
  "createElement_a p s =
     (\<lparr>anchorNode = nextNode s, href = None,
       download = (if supportsDownload p then Some [] else None)\<rparr>,
      s\<lparr>nextNode := Suc (nextNode s)\<rparr>)"

text \<open>\<^verbatim>\<open>document.body.appendChild(n)\<close>: a node that is already a child is moved to the end.\<close>

definition appendChild :: "node \<Rightarrow> state \<Rightarrow> state" where
  "appendChild n s =
     s\<lparr>body := filter (\<lambda>m. m \<noteq> n) (body s) @ [n],
       mutations := mutations s
         @ (if n \<in> set (body s) then [ChildRemoved n] else []) @ [ChildAppended n]\<rparr>"

text \<open>\<^verbatim>\<open>document.body.removeChild(n)\<close> throws when \<open>n\<close> is not a child.\<close>

definition removeChild :: "node \<Rightarrow> state \<Rightarrow> failure + state" where
  "removeChild n s =
     (if n \<in> set (body s)
      then Inr (s\<lparr>body := filter (\<lambda>m. m \<noteq> n) (body s),
                  mutations := mutations s @ [ChildRemoved n]\<rparr>)
      else Inl NotFoundError)"

text \<open>
  \<^verbatim>\<open>link.click()\<close> on an anchor with both \<^verbatim>\<open>href\<close> and \<^verbatim>\<open>download\<close> set saves the resource under
  the given name. The source activates no other kind of anchor.
\<close>

definition click :: "anchor \<Rightarrow> state \<Rightarrow> state" where
  "click a s =
     (case (href a, download a) of
        (Some url, Some name) \<Rightarrow> s\<lparr>downloads := downloads s @ [(name, ImageData url)]\<rparr>
      | _ \<Rightarrow> s)"

definition window_open :: "data_url \<Rightarrow> state \<Rightarrow> state" where
  "window_open url s = s\<lparr>windows := windows s @ [url]\<rparr>"

text \<open>
  \<^verbatim>\<open>navigator.clipboard.write(items)\<close>, on a platform that has the asynchronous Clipboard
  API: the call is recorded; the promise it returns is rejected when the platform
  refuses the items (no permission, data that is not a blob) and fulfilled, with the
  clipboard replaced, otherwise.
\<close>

definition clipboard_write :: "platform \<Rightarrow> clipboard_item list \<Rightarrow> state \<Rightarrow> (failure + unit) \<times> state" where
  "clipboard_write p items s =
     (let s1 = s\<lparr>clipboardWrites := clipboardWrites s @ [items]\<rparr> in
      case clipboardRefusal p items of
        Some e \<Rightarrow> (Inl e, s1)
      | None \<Rightarrow> (Inr (), s1\<lparr>clipboard := Some items\<rparr>))"

text \<open>
  \<^verbatim>\<open>canvas.toBlob(callback)\<close>: encodes with the default type and queues a task that calls
  the callback with the blob, or with \<^verbatim>\<open>null\<close> when there is none.
\<close>

definition toBlob :: "platform \<Rightarrow> canvas \<Rightarrow> state \<Rightarrow> state" where
  "toBlob p c s = s\<lparr>tasks := tasks s @ [BlobCallback (toBlob_encoder p c)]\<rparr>"

text \<open>jsPDF: \<^verbatim>\<open>new jsPDF()\<close>, \<^verbatim>\<open>pdf.internal.pageSize.getWidth()\<close>, \<^verbatim>\<open>addImage\<close> and \<^verbatim>\<open>save\<close>.\<close>

definition new_jsPDF :: "platform \<Rightarrow> pdf" where
  "new_jsPDF p = \<lparr>pageWidth = defaultPageWidth p, pageHeight = defaultPageHeight p, pages = [[]]\<rparr>"

definition getWidth :: "pdf \<Rightarrow> real" where
  "getWidth d = pageWidth d"

definition addImage ::
  "data_url \<Rightarrow> string \<Rightarrow> js_number \<Rightarrow> js_number \<Rightarrow> js_number \<Rightarrow> js_number \<Rightarrow> pdf \<Rightarrow> pdf" where
  "addImage d fmt x y w h doc =
     doc\<lparr>pages := butlast (pages doc)
        @ [last (pages doc)
           @ [\<lparr>imageData = d, imageFormat = fmt, imageX = x, imageY = y, imageW = w, imageH = h\<rparr>]]\<rparr>"

definition save :: "pdf \<Rightarrow> string \<Rightarrow> state \<Rightarrow> state" where
  "save doc name s = s\<lparr>downloads := downloads s @ [(name, Document doc)]\<rparr>"

subsection \<open>The three operations\<close>

text \<open>
  The callback of \<^verbatim>\<open>copyImage\<close>. The assertion \<^verbatim>\<open>blob!\<close> is erased by the compiler: the item
  is built from whatever the callback receives. The promise of \<^verbatim>\<open>write\<close> is dropped, so
  its rejection is an unhandled rejection.
\<close>

definition copyImage_callback :: "platform \<Rightarrow> blob option \<Rightarrow> state \<Rightarrow> state" where
  "copyImage_callback p blob s =
     (let item = ClipboardItem [(''image/png'', blob)] in
      case clipboard_write p [item] s of
        (Inl e, s') \<Rightarrow> s'\<lparr>unhandled := unhandled s' @ [e]\<rparr>
      | (Inr u, s') \<Rightarrow> s')"

definition copyImage :: "platform \<Rightarrow> element \<Rightarrow> state \<Rightarrow> (failure + unit) \<times> state" where
  "copyImage p element s =
     (case html2canvas p element of
        Inl e \<Rightarrow> (Inl e, s)
      | Inr canvas \<Rightarrow> (Inr (), toBlob p canvas s))"

text \<open>The event loop: the queued tasks run in order, after the operation has returned.\<close>

fun runTask :: "platform \<Rightarrow> task \<Rightarrow> state \<Rightarrow> state" where
  "runTask p (BlobCallback blob) s = copyImage_callback p blob s"

definition runTasks :: "platform \<Rightarrow> state \<Rightarrow> state" where
  "runTasks p s = fold (runTask p) (tasks s) (s\<lparr>tasks := []\<rparr>)"

text \<open>Default parameter values: an omitted argument is \<open>None\<close>.\<close>

definition default_arg :: "'a \<Rightarrow> 'a option \<Rightarrow> 'a" where
  "default_arg d a = (case a of None \<Rightarrow> d | Some v \<Rightarrow> v)"

definition downloadImage ::
  "platform \<Rightarrow> element \<Rightarrow> string option \<Rightarrow> file_extension option \<Rightarrow> state
     \<Rightarrow> (failure + unit) \<times> state" where
  "downloadImage p element fileName' fileExtension' s =
     (let fileName = default_arg ''image'' fileName';
          fileExtension = default_arg Png fileExtension' in
      case html2canvas p element of
        Inl e \<Rightarrow> (Inl e, s)
      | Inr canvas \<Rightarrow>
          (let data = toDataURL p canvas (''image/'' @ extension_string fileExtension);
               (link, s1) = createElement_a p s in
           if download link \<noteq> None then
             (let link1 = link\<lparr>href := Some data\<rparr>;
                  link2 = link1\<lparr>download :=
                            Some (fileName @ ''.'' @ extension_string fileExtension)\<rparr>;
                  s2 = appendChild (anchorNode link2) s1;
                  s3 = click link2 s2 in
              case removeChild (anchorNode link2) s3 of
                Inl e \<Rightarrow> (Inl e, s3)
              | Inr s4 \<Rightarrow> (Inr (), s4))
           else (Inr (), window_open data s1)))"

definition downloadPdf ::
  "platform \<Rightarrow> element \<Rightarrow> string option \<Rightarrow> state \<Rightarrow> (failure + unit) \<times> state" where
  "downloadPdf p element fileName' s =
     (let fileName = default_arg ''image'' fileName' in
      case html2canvas p element of
        Inl e \<Rightarrow> (Inl e, s)
      | Inr canvas \<Rightarrow>
          (let data = toDataURL p canvas ''image/png'';
               doc = new_jsPDF p in
           case getImageProperties p data of
             Inl e \<Rightarrow> (Inl e, s)
           | Inr imgProperties \<Rightarrow>
               (let pdfWidth = getWidth doc;
                    pdfHeight = js_div (height imgProperties * pdfWidth) (width imgProperties);
                    doc1 = addImage data ''PNG'' (Num 0) (Num 0) (Num pdfWidth) pdfHeight doc in
                (Inr (), save doc1 (fileName @ ''.pdf'') s))))"

subsection \<open>Observations\<close>

text \<open>The anchor that a call of \<^verbatim>\<open>downloadImage\<close> in state \<open>s\<close> creates.\<close>

definition anchor_of_call :: "platform \<Rightarrow> state \<Rightarrow> node" where
  "anchor_of_call p s = anchorNode (fst (createElement_a p s))"

text \<open>The document of the most recent download, when that is a PDF, and the images on it.\<close>

definition savedDocument :: "state \<Rightarrow> pdf option" where
  "savedDocument s =
     (case rev (downloads s) of
        (name, Document d) # older \<Rightarrow> Some d
      | _ \<Rightarrow> None)"


text \<open>The name and the format tag of a downloaded file.\<close>

fun contentType :: "file_content \<Rightarrow> string option" where
  "contentType (ImageData d) = mediaType d"
| "contentType (Document d) = Some ''application/pdf''"

definition downloadedAs :: "state \<Rightarrow> (string \<times> string option) list" where
  "downloadedAs s = map (\<lambda>(name, c). (name, contentType c)) (downloads s)"

text \<open>
  The contract of the rasterizer on a missing element: html2canvas rejects a first
  argument that is not an object before it does anything else.
\<close>

definition rejects_missing_element :: "platform \<Rightarrow> bool" where
  "rejects_missing_element p = (isl (html2canvas p Null) \<and> isl (html2canvas p Undefined))"

subsection \<open>A concrete platform\<close>

text \<open>
  The serialization of a bitmap as a file, as the HTML Standard defines it for
  \<^verbatim>\<open>toDataURL\<close> and \<^verbatim>\<open>toBlob\<close>: a bitmap without pixels has no file; a requested type that
  the user agent supports is used; for every other type the file is a PNG. The bytes
  are stood for by the base64 text of the format's signature.
\<close>

definition html_serialization :: "string list \<Rightarrow> canvas \<Rightarrow> string \<Rightarrow> blob option" where
  "html_serialization types c t =
     (if canvasWidth c = 0 \<or> canvasHeight c = 0 then None
      else (let t' = (if t \<in> set types then t else ''image/png'') in
            Some \<lparr>blobType = t',
                  blobBytes = (if t' = ''image/jpeg'' then ''/9j/4A'' else ''iVBORw0KGgo'')\<rparr>))"

text \<open>
  A browser whose encoder knows \<^verbatim>\<open>image/png\<close>, \<^verbatim>\<open>image/jpeg\<close> and \<^verbatim>\<open>image/webp\<close>, with the
  \<^verbatim>\<open>download\<close> attribute, and a jsPDF with a 210 by 297 page. Element 0 is rendered
  without area, every other element as a 200 by 100 bitmap.
\<close>

definition standard_browser :: platform where
  "standard_browser =
     \<lparr>html2canvas = (\<lambda>e. case e of
          Element 0 \<Rightarrow> Inr \<lparr>canvasWidth = 0, canvasHeight = 0, pixels = 0\<rparr>
        | Element (Suc n) \<Rightarrow> Inr \<lparr>canvasWidth = 200, canvasHeight = 100, pixels = Suc n\<rparr>
        | _ \<Rightarrow> Inl InvalidElement),
      toBlob_encoder = (\<lambda>c. html_serialization [''image/png'', ''image/jpeg'', ''image/webp''] c ''image/png''),
      toDataURL = (\<lambda>c t.
        case html_serialization [''image/png'', ''image/jpeg'', ''image/webp''] c t of
          None \<Rightarrow> EmptyDataURL
        | Some b \<Rightarrow> DataURL (blobType b) (blobBytes b)),
      supportsDownload = True,
      clipboardRefusal = (\<lambda>items.
        if list_ex (\<lambda>i. list_ex (\<lambda>r. snd r = None) (representations i)) items
        then Some TypeError else None),
      getImageProperties = (\<lambda>d. case d of
          EmptyDataURL \<Rightarrow> Inl UnknownImageType
        | DataURL t b \<Rightarrow> Inr \<lparr>width = 200, height = 100\<rparr>),
      defaultPageWidth = 210,
      defaultPageHeight = 297\<rparr>"

text \<open>A page whose body holds the elements 0 and 1, with nothing pending.\<close>

definition initial_page :: state where
  "initial_page = \<lparr>nextNode = 2, body = [0, 1], mutations = [], downloads = [], windows = [],
     clipboardWrites = [], clipboard = None, unhandled = [], tasks = []\<rparr>"

definition rasterized :: canvas where
  "rasterized = \<lparr>canvasWidth = 200, canvasHeight = 100, pixels = 1\<rparr>"

section \<open>Properties\<close>

subsection \<open>What each operation does on its paths\<close>

lemma downloadImage_rejected:
  "html2canvas p element = Inl e \<Longrightarrow> downloadImage p element fileName fileExtension s = (Inl e, s)"
  by (simp add: downloadImage_def Let_def)

lemma downloadImage_supported:
  assumes "html2canvas p element = Inr canvas" and "supportsDownload p"
  shows "downloadImage p element fileName fileExtension s =
    (Inr (),
     s\<lparr>nextNode := Suc (nextNode s),
       body := filter (\<lambda>m. m \<noteq> nextNode s) (body s),
       mutations := mutations s
         @ (if nextNode s \<in> set (body s) then [ChildRemoved (nextNode s)] else [])
         @ [ChildAppended (nextNode s), ChildRemoved (nextNode s)],
       downloads := downloads s
         @ [(default_arg ''image'' fileName @ ''.'' @ extension_string (default_arg Png fileExtension),
             ImageData (toDataURL p canvas (''image/'' @ extension_string (default_arg Png fileExtension))))]\<rparr>)"
  using assms
  by (simp add: downloadImage_def createElement_a_def appendChild_def click_def removeChild_def Let_def)

lemma downloadImage_unsupported:
  assumes "html2canvas p element = Inr canvas" and "\<not> supportsDownload p"
  shows "downloadImage p element fileName fileExtension s =
    (Inr (),
     s\<lparr>nextNode := Suc (nextNode s),
       windows := windows s
         @ [toDataURL p canvas (''image/'' @ extension_string (default_arg Png fileExtension))]\<rparr>)"
  using assms
  by (simp add: downloadImage_def createElement_a_def window_open_def Let_def)

lemma filter_fresh: "\<forall>n \<in> set xs. n < (k::nat) \<Longrightarrow> filter (\<lambda>m. m \<noteq> k) xs = xs"
  by (induction xs) auto

lemma copyImage_rejected:
  "html2canvas p element = Inl e \<Longrightarrow> copyImage p element s = (Inl e, s)"
  by (simp add: copyImage_def)

lemma copyImage_rasterized:
  "html2canvas p element = Inr canvas \<Longrightarrow>
     copyImage p element s = (Inr (), s\<lparr>tasks := tasks s @ [BlobCallback (toBlob_encoder p canvas)]\<rparr>)"
  by (simp add: copyImage_def toBlob_def)

lemma copyImage_callback_eq:
  "copyImage_callback p blob s =
     (case clipboardRefusal p [ClipboardItem [(''image/png'', blob)]] of
        Some e \<Rightarrow> s\<lparr>clipboardWrites := clipboardWrites s @ [[ClipboardItem [(''image/png'', blob)]]],
                    unhandled := unhandled s @ [e]\<rparr>
      | None \<Rightarrow> s\<lparr>clipboardWrites := clipboardWrites s @ [[ClipboardItem [(''image/png'', blob)]]],
                  clipboard := Some [ClipboardItem [(''image/png'', blob)]]\<rparr>)"
  by (simp add: copyImage_callback_def clipboard_write_def Let_def split: option.splits)

lemma runTasks_snoc:
  "runTasks p (s\<lparr>tasks := tasks s @ [t]\<rparr>) = runTask p t (runTasks p s)"
  by (simp add: runTasks_def)





lemma runTasks_idle: "tasks s = [] \<Longrightarrow> runTasks p s = s"
  by (simp add: runTasks_def)

lemma copyImage_then_tasks:
  "html2canvas p element = Inr canvas \<Longrightarrow>
     runTasks p (snd (copyImage p element s))
       = copyImage_callback p (toBlob_encoder p canvas) (runTasks p s)"
  by (simp add: copyImage_rasterized runTasks_snoc)

lemma downloadPdf_rejected:
  "html2canvas p element = Inl e \<Longrightarrow> downloadPdf p element fileName s = (Inl e, s)"
  by (simp add: downloadPdf_def Let_def)

lemma downloadPdf_saved:
  assumes "html2canvas p element = Inr canvas"
    and "getImageProperties p (toDataURL p canvas ''image/png'') = Inr props"
  shows "downloadPdf p element fileName s =
    (Inr (),
     s\<lparr>downloads := downloads s
        @ [(default_arg ''image'' fileName @ ''.pdf'',
            Document \<lparr>pageWidth = defaultPageWidth p, pageHeight = defaultPageHeight p,
              pages = [[\<lparr>imageData = toDataURL p canvas ''image/png'', imageFormat = ''PNG'',
                         imageX = Num 0, imageY = Num 0, imageW = Num (defaultPageWidth p),
                         imageH = js_div (height props * defaultPageWidth p) (width props)\<rparr>]]\<rparr>)]\<rparr>)"
  using assms
  by (simp add: downloadPdf_def new_jsPDF_def getWidth_def addImage_def save_def Let_def)

lemma standard_rasterizer: "html2canvas standard_browser (Element 1) = Inr rasterized"
  by (simp add: standard_browser_def rasterized_def)

lemma flat_rasterizer:
  "html2canvas standard_browser (Element 0) = Inr \<lparr>canvasWidth = 0, canvasHeight = 0, pixels = 0\<rparr>"
  by (simp add: standard_browser_def)

lemma html_serialization_unknown_type:
  assumes "t \<notin> set types" and "0 < canvasWidth c" and "0 < canvasHeight c"
  shows "map_option blobType (html_serialization types c t) = Some ''image/png''"
  using assms by (simp add: html_serialization_def)

lemma clipboardWrites_callback:
  "clipboardWrites (copyImage_callback p blob s)
     = clipboardWrites s @ [[ClipboardItem [(''image/png'', blob)]]]"
  by (simp add: copyImage_callback_eq split: option.splits)

subsection \<open>The claims\<close>

text \<open>
  C1. Claim: \<^verbatim>\<open>downloadImage\<close> with format \<^verbatim>\<open>jpg\<close> and the default file name downloads a
  file named \<^verbatim>\<open>image.jpg\<close> whose encoded data carries the format tag of \<^verbatim>\<open>jpg\<close>. The
  name is as claimed; the tag is not. The source builds the requested type from the
  selector, \<^verbatim>\<open>image/jpg\<close>, which is not the MIME type of JPEG (\<^verbatim>\<open>image/jpeg\<close>). The encoder
  does not know it and encodes a PNG, so the file named \<^verbatim>\<open>image.jpg\<close> holds data tagged
  \<^verbatim>\<open>image/png\<close>; asked for \<^verbatim>\<open>image/jpeg\<close>, the same encoder tags its data \<^verbatim>\<open>image/jpeg\<close>.
\<close>

theorem downloadImage_jpg_carries_png:
  "downloadedAs (snd (downloadImage standard_browser (Element 1) None (Some Jpg) initial_page))
     = [(''image.jpg'', Some ''image/png'')]
   \<and> downloadImage standard_browser (Element 1) None (Some Jpg) initial_page =
     (Inr (),
      initial_page\<lparr>nextNode := 3, mutations := [ChildAppended 2, ChildRemoved 2],
        downloads := [(''image.jpg'', ImageData (DataURL ''image/png'' ''iVBORw0KGgo''))]\<rparr>)
   \<and> mediaType (toDataURL standard_browser rasterized ''image/jpeg'') = Some ''image/jpeg''"
  by (simp add: downloadImage_def standard_browser_def initial_page_def html_serialization_def
      default_arg_def createElement_a_def appendChild_def click_def removeChild_def
      downloadedAs_def rasterized_def)





text \<open>
  C4. On the successful run of \<^verbatim>\<open>downloadImage\<close> through the download branch, the anchor
  the call creates is in the document neither before the call nor after it: the body
  is as it was, and the mutations of the call are the anchor appended and the anchor
  removed, with one download triggered.
\<close>

theorem downloadImage_anchor_scoped:
  assumes "wf_state s" and "html2canvas p element = Inr canvas" and "supportsDownload p"
  shows "fst (downloadImage p element fileName fileExtension s) = Inr ()
    \<and> anchor_of_call p s \<notin> set (body s)
    \<and> anchor_of_call p s \<notin> set (body (snd (downloadImage p element fileName fileExtension s)))
    \<and> body (snd (downloadImage p element fileName fileExtension s)) = body s
    \<and> mutations (snd (downloadImage p element fileName fileExtension s))
        = mutations s @ [ChildAppended (anchor_of_call p s), ChildRemoved (anchor_of_call p s)]
    \<and> length (downloads (snd (downloadImage p element fileName fileExtension s)))
        = Suc (length (downloads s))
    \<and> wf_state (snd (downloadImage p element fileName fileExtension s))"
proof -
  have fresh: "nextNode s \<notin> set (body s)"
    using assms(1) by (auto simp: wf_state_def)
  have same: "filter (\<lambda>m. m \<noteq> nextNode s) (body s) = body s"
    using assms(1) by (simp add: wf_state_def filter_fresh)
  have a: "anchor_of_call p s = nextNode s"
    by (simp add: anchor_of_call_def createElement_a_def)
  have wf: "\<forall>n \<in> set (body s). n < Suc (nextNode s)"
    using assms(1) by (auto simp: wf_state_def)
  show ?thesis
    using fresh same wf
    by (simp add: downloadImage_supported [OF assms(2,3)] a wf_state_def)
qed

theorem downloadImage_anchor_scoped_witness:
  "wf_state initial_page
   \<and> html2canvas standard_browser (Element 1) = Inr rasterized
   \<and> supportsDownload standard_browser
   \<and> anchor_of_call standard_browser initial_page = 2
   \<and> body initial_page = [0, 1]
   \<and> body (snd (downloadImage standard_browser (Element 1) None None initial_page)) = [0, 1]
   \<and> mutations (snd (downloadImage standard_browser (Element 1) None None initial_page))
       = [ChildAppended 2, ChildRemoved 2]"
proof -
  have w: "wf_state initial_page" by (simp add: wf_state_def initial_page_def)
  have d: "supportsDownload standard_browser" by (simp add: standard_browser_def)
  have a: "anchor_of_call standard_browser initial_page = 2"
    by (simp add: anchor_of_call_def createElement_a_def initial_page_def)
  from downloadImage_anchor_scoped [OF w standard_rasterizer d, of None None]
  show ?thesis using w d a standard_rasterizer by (simp add: initial_page_def)
qed





text \<open>
  C7. In \<^verbatim>\<open>downloadImage\<close>, after a successful rasterization: the platform lacks the
  \<^verbatim>\<open>download\<close> attribute exactly when no download is triggered and the encoded image is
  opened in a new browsing context (the document is then left alone); it has the
  attribute exactly when the download is triggered and no browsing context is opened.
\<close>

theorem downloadImage_fallback:
  assumes "html2canvas p element = Inr canvas"
  shows "(\<not> supportsDownload p \<longleftrightarrow>
           downloads (snd (downloadImage p element fileName fileExtension s)) = downloads s
           \<and> windows (snd (downloadImage p element fileName fileExtension s))
               = windows s
                 @ [toDataURL p canvas (''image/'' @ extension_string (default_arg Png fileExtension))])
    \<and> (supportsDownload p \<longleftrightarrow>
           downloads (snd (downloadImage p element fileName fileExtension s))
               = downloads s
                 @ [(default_arg ''image'' fileName @ ''.'' @ extension_string (default_arg Png fileExtension),
                     ImageData (toDataURL p canvas (''image/'' @ extension_string (default_arg Png fileExtension))))]
           \<and> windows (snd (downloadImage p element fileName fileExtension s)) = windows s)
    \<and> (\<not> supportsDownload p \<longrightarrow>
           mutations (snd (downloadImage p element fileName fileExtension s)) = mutations s
           \<and> body (snd (downloadImage p element fileName fileExtension s)) = body s)
    \<and> fst (downloadImage p element fileName fileExtension s) = Inr ()"
proof (cases "supportsDownload p")
  case True
  then show ?thesis by (simp add: downloadImage_supported [OF assms True])
next
  case False
  then show ?thesis by (simp add: downloadImage_unsupported [OF assms False])
qed

theorem downloadImage_fallback_witness:
  "html2canvas (standard_browser\<lparr>supportsDownload := False\<rparr>) (Element 1) = Inr rasterized
   \<and> supportsDownload (standard_browser\<lparr>supportsDownload := False\<rparr>) = False
   \<and> downloads (snd (downloadImage (standard_browser\<lparr>supportsDownload := False\<rparr>)
        (Element 1) None None initial_page)) = []
   \<and> windows (snd (downloadImage (standard_browser\<lparr>supportsDownload := False\<rparr>)
        (Element 1) None None initial_page)) = [DataURL ''image/png'' ''iVBORw0KGgo'']
   \<and> mutations (snd (downloadImage (standard_browser\<lparr>supportsDownload := False\<rparr>)
        (Element 1) None None initial_page)) = []"
proof -
  have h: "html2canvas (standard_browser\<lparr>supportsDownload := False\<rparr>) (Element 1) = Inr rasterized"
    by (simp add: standard_browser_def rasterized_def)
  have d: "toDataURL (standard_browser\<lparr>supportsDownload := False\<rparr>) rasterized ''image/png''
      = DataURL ''image/png'' ''iVBORw0KGgo''"
    by (simp add: standard_browser_def rasterized_def html_serialization_def)
  from downloadImage_fallback [OF h, of None None initial_page]
  show ?thesis using h d by (simp add: default_arg_def initial_page_def)
qed

text \<open>
  C8. With a \<^verbatim>\<open>null\<close> or \<^verbatim>\<open>undefined\<close> element each of the three operations fails with the
  rasterizer's rejection and leaves the state as it was: nothing is queued, written,
  opened or downloaded. The operations have no check of their own; the rejection is
  the rasterizer's, which is the first thing each of them calls.
\<close>

theorem missing_element_fails:
  assumes "rejects_missing_element p" and "element = Null \<or> element = Undefined"
  shows "isl (html2canvas p element)
    \<and> copyImage p element s = (Inl (projl (html2canvas p element)), s)
    \<and> runTasks p (snd (copyImage p element s)) = runTasks p s
    \<and> downloadImage p element fileName fileExtension s = (Inl (projl (html2canvas p element)), s)
    \<and> downloadPdf p element fileName s = (Inl (projl (html2canvas p element)), s)"
proof -
  from assms have "isl (html2canvas p element)"
    by (auto simp: rejects_missing_element_def)
  then obtain e where e: "html2canvas p element = Inl e"
    by (cases "html2canvas p element") auto
  then show ?thesis
    by (simp add: copyImage_rejected downloadImage_rejected downloadPdf_rejected)
qed

theorem missing_element_fails_witness:
  "rejects_missing_element standard_browser
   \<and> copyImage standard_browser Null initial_page = (Inl InvalidElement, initial_page)
   \<and> downloadImage standard_browser Null None None initial_page = (Inl InvalidElement, initial_page)
   \<and> downloadPdf standard_browser Null None initial_page = (Inl InvalidElement, initial_page)
   \<and> copyImage standard_browser Undefined initial_page = (Inl InvalidElement, initial_page)
   \<and> downloadImage standard_browser Undefined None None initial_page = (Inl InvalidElement, initial_page)
   \<and> downloadPdf standard_browser Undefined None initial_page = (Inl InvalidElement, initial_page)"
proof -
  have r: "rejects_missing_element standard_browser"
    by (simp add: rejects_missing_element_def standard_browser_def)
  have n: "html2canvas standard_browser Null = Inl InvalidElement"
    and u: "html2canvas standard_browser Undefined = Inl InvalidElement"
    by (simp_all add: standard_browser_def)
  from missing_element_fails [OF r, of Null initial_page None None]
    missing_element_fails [OF r, of Undefined initial_page None None]
  show ?thesis using r n u by simp
qed

text \<open>
  C9. Where the element is rasterized and the image properties are read,
  \<^verbatim>\<open>downloadPdf\<close> saves a document of one page that holds one image, placed at the
  origin with the width of the page, under the file name followed by \<^verbatim>\<open>.pdf\<close>
  (\<^verbatim>\<open>image.pdf\<close> with the file name omitted).
\<close>

theorem downloadPdf_single_page:
  assumes "html2canvas p element = Inr canvas"
    and "getImageProperties p (toDataURL p canvas ''image/png'') = Inr props"
  shows "fst (downloadPdf p element fileName s) = Inr ()
    \<and> map fst (downloads (snd (downloadPdf p element fileName s)))
        = map fst (downloads s) @ [default_arg ''image'' fileName @ ''.pdf'']
    \<and> map fst (downloads (snd (downloadPdf p element None s)))
        = map fst (downloads s) @ [''image.pdf'']
    \<and> savedDocument (snd (downloadPdf p element fileName s))
        = Some \<lparr>pageWidth = defaultPageWidth p, pageHeight = defaultPageHeight p,
            pages = [[\<lparr>imageData = toDataURL p canvas ''image/png'', imageFormat = ''PNG'',
                       imageX = Num 0, imageY = Num 0, imageW = Num (defaultPageWidth p),
                       imageH = js_div (height props * defaultPageWidth p) (width props)\<rparr>]]\<rparr>"
  using assms by (simp add: downloadPdf_saved savedDocument_def default_arg_def)

theorem downloadPdf_single_page_witness:
  "html2canvas standard_browser (Element 1) = Inr rasterized
   \<and> getImageProperties standard_browser (toDataURL standard_browser rasterized ''image/png'')
       = Inr \<lparr>width = 200, height = 100\<rparr>
   \<and> map fst (downloads (snd (downloadPdf standard_browser (Element 1) (Some ''QRCode'') initial_page)))
       = [''QRCode.pdf'']
   \<and> savedDocument (snd (downloadPdf standard_browser (Element 1) (Some ''QRCode'') initial_page))
       = Some \<lparr>pageWidth = 210, pageHeight = 297,
           pages = [[\<lparr>imageData = DataURL ''image/png'' ''iVBORw0KGgo'', imageFormat = ''PNG'',
                      imageX = Num 0, imageY = Num 0, imageW = Num 210, imageH = Num 105\<rparr>]]\<rparr>"
proof -
  have d: "toDataURL standard_browser rasterized ''image/png'' = DataURL ''image/png'' ''iVBORw0KGgo''"
    by (simp add: standard_browser_def rasterized_def html_serialization_def)
  have g: "getImageProperties standard_browser (toDataURL standard_browser rasterized ''image/png'')
       = Inr \<lparr>width = 200, height = 100\<rparr>"
    by (simp add: d) (simp add: standard_browser_def)
  have w: "defaultPageWidth standard_browser = 210" "defaultPageHeight standard_browser = 297"
    by (simp_all add: standard_browser_def)
  from downloadPdf_single_page [OF standard_rasterizer g, of "Some ''QRCode''" initial_page]
  show ?thesis using standard_rasterizer g d w
    by (simp add: default_arg_def initial_page_def js_div_def)
qed

text \<open>
  C10. The callback of \<^verbatim>\<open>copyImage\<close> has no guard on the blob: whatever it receives
  becomes the \<^verbatim>\<open>image/png\<close> entry of the item that is written. When the encoder yields
  \<^verbatim>\<open>null\<close> the operation still returns normally and the write is called with an item
  built from \<^verbatim>\<open>null\<close>.
\<close>

theorem copyImage_null_blob_written:
  assumes "html2canvas p element = Inr canvas" and "toBlob_encoder p canvas = None"
  shows "fst (copyImage p element s) = Inr ()
    \<and> tasks (snd (copyImage p element s)) = tasks s @ [BlobCallback None]
    \<and> clipboardWrites (runTasks p (snd (copyImage p element s)))
        = clipboardWrites (runTasks p s) @ [[ClipboardItem [(''image/png'', None)]]]
    \<and> clipboardWrites (copyImage_callback p blob s)
        = clipboardWrites s @ [[ClipboardItem [(''image/png'', blob)]]]"
  using assms
  by (simp add: copyImage_rasterized runTasks_snoc clipboardWrites_callback)

theorem copyImage_null_blob_written_witness:
  "html2canvas standard_browser (Element 0) = Inr \<lparr>canvasWidth = 0, canvasHeight = 0, pixels = 0\<rparr>
   \<and> toBlob_encoder standard_browser \<lparr>canvasWidth = 0, canvasHeight = 0, pixels = 0\<rparr> = None
   \<and> fst (copyImage standard_browser (Element 0) initial_page) = Inr ()
   \<and> clipboardWrites (runTasks standard_browser (snd (copyImage standard_browser (Element 0) initial_page)))
       = [[ClipboardItem [(''image/png'', None)]]]"
proof -
  have b: "toBlob_encoder standard_browser \<lparr>canvasWidth = 0, canvasHeight = 0, pixels = 0\<rparr> = None"
    by (simp add: standard_browser_def html_serialization_def)
  have i: "runTasks standard_browser initial_page = initial_page"
    by (simp add: runTasks_idle initial_page_def)
  from copyImage_null_blob_written [OF flat_rasterizer b, of initial_page]
  show ?thesis using flat_rasterizer b i by (simp add: initial_page_def)
qed

end
